theory Spec2Isabelle
  imports Complex_Main
begin

section \<open>Data model\<close>

text \<open>
  The agent of \<^verbatim>\<open>src/agent.py\<close> (class \<^verbatim>\<open>DDPG\<close>) is embedded over an explicit object store.
  Floating-point numbers are idealised as reals, with one exception: where \<^verbatim>\<open>act\<close> casts the
  noise level to float32 the cast is modelled exactly, because it decides whether the call
  raises. A parameter tensor is its flattened list of elements, so that two tensors have the
  same shape when the lists have the same length.
\<close>

datatype error = ValueError | TypeError | RuntimeError | KeyError | FileNotFoundError

type_synonym addr = nat

type_synonym param = "real list"

text \<open>A \<^verbatim>\<open>torch.nn.Parameter\<close> object: its storage \<^verbatim>\<open>.data\<close> and its accumulated gradient
  \<^verbatim>\<open>.grad\<close> (\<^verbatim>\<open>None\<close> until a backward pass reaches it).\<close>

record parameter =
  data :: param
  grad :: "param option"

text \<open>The store: every Parameter object lives at an address, the index into this list.\<close>

type_synonym heap = "parameter list"

text \<open>
  Modelled from the spec: \<^verbatim>\<open>src/network.py\<close> (classes \<^verbatim>\<open>MLP\<close>, \<^verbatim>\<open>CNN\<close>) is not part of the
  sources. A function approximator "maps a numeric vector to a numeric vector" and "exposes a
  parameter set": \<open>forward\<close> takes the current values of the parameters and one input row,
  \<open>parameters\<close> lists the addresses of the Parameter objects in the order of
  \<^verbatim>\<open>Module.parameters()\<close>.
\<close>

record network =
  forward :: "param list \<Rightarrow> real list \<Rightarrow> real list"
  parameters :: "addr list"

text \<open>The namedtuple \<^verbatim>\<open>Transition\<close> of \<^verbatim>\<open>DDPG.__init__\<close> (lines 60-63); the field \<^verbatim>\<open>done\<close>
  is written \<open>done_t\<close>.\<close>

record transition =
  state :: "real list"
  action :: "real list"
  reward :: real
  next_state :: "real list"
  done_t :: bool

text \<open>
  Modelled from the spec: \<^verbatim>\<open>src/buffer.py\<close> (class \<^verbatim>\<open>ExpReplay\<close>) is not part of the sources.
  The replay buffer is "an ordered, fixed-capacity ring of Transition records"; \<open>store\<close>
  evicts the oldest entry at capacity, \<open>len\<close> is the occupied count, \<open>clear\<close> empties it and
  \<open>sample n\<close> returns \<open>n\<close> independent uniform draws. The random generator is an explicit
  argument: \<open>rng k\<close> is the \<open>k\<close>-th draw. Checking that the buffer holds \<open>n\<close> transitions is
  left to the caller, as the spec has it; \<open>update\<close> does so before it samples.
\<close>

record ExpReplay =
  capacity :: nat
  memory :: "transition list"

definition ExpReplay_init :: "nat \<Rightarrow> ExpReplay" where
  "ExpReplay_init cap = \<lparr>capacity = cap, memory = []\<rparr>"

definition ExpReplay_len :: "ExpReplay \<Rightarrow> int" where
  "ExpReplay_len b = int (length (memory b))"

definition ExpReplay_store :: "ExpReplay \<Rightarrow> transition \<Rightarrow> ExpReplay" where
  "ExpReplay_store b t =
     (let m = memory b @ [t] in b\<lparr>memory := drop (length m - capacity b) m\<rparr>)"

definition ExpReplay_clear :: "ExpReplay \<Rightarrow> ExpReplay" where
  "ExpReplay_clear b = b\<lparr>memory := []\<rparr>"

definition ExpReplay_sample :: "ExpReplay \<Rightarrow> int \<Rightarrow> (nat \<Rightarrow> nat) \<Rightarrow> transition list" where
  "ExpReplay_sample b n rng =
     map (\<lambda>k. memory b ! (rng k mod length (memory b))) [0 ..< nat n]"

text \<open>
  \<^verbatim>\<open>torch.optim.Adam\<close>: the Parameter objects it was built from, the learning rate of its one
  parameter group, and the per-parameter state (step count and the two moment estimates),
  empty until the first step.
\<close>

type_synonym opt_state = "(nat \<times> param \<times> param) list"

record optimizer =
  opt_params :: "addr list"
  lr :: real
  opt_state :: opt_state

text \<open>The constructor of Adam rejects a negative learning rate and an empty parameter list.\<close>

definition Adam :: "addr list \<Rightarrow> real \<Rightarrow> error + optimizer" where
  "Adam ps l =
     (if \<not> 0 \<le> l then Inl ValueError
      else if ps = [] then Inl ValueError
      else Inr \<lparr>opt_params = ps, lr = l, opt_state = []\<rparr>)"

text \<open>The attributes of a \<^verbatim>\<open>DDPG\<close> object, and the store its networks live in.\<close>

record agent =
  heap :: heap
  tau :: real
  gamma :: real
  batch_size :: int
  buffer :: ExpReplay
  actor :: network
  critic :: network
  actor_optimizer :: optimizer
  critic_optimizer :: optimizer
  actor_target :: network
  critic_target :: network

section \<open>Construction\<close>

text \<open>\<^verbatim>\<open>copy.deepcopy\<close> of a module: every Parameter is cloned into a new object (a fresh
  address, the same values, no gradient); the original objects are left as they are.\<close>

definition deepcopy :: "heap \<Rightarrow> network \<Rightarrow> heap \<times> network" where
  "deepcopy h m =
     (h @ map (\<lambda>a. \<lparr>data = data (h ! a), grad = None\<rparr>) (parameters m),
      m\<lparr>parameters := [length h ..< length h + length (parameters m)]\<rparr>)"

text \<open>\<^verbatim>\<open>DDPG.__init__\<close> (lines 46-76). The caller's networks \<open>Actor\<close> and \<open>Critic\<close> live in
  the store \<open>h\<close>.\<close>

definition DDPG_init ::
    "heap \<Rightarrow> network \<Rightarrow> network \<Rightarrow> real \<Rightarrow> real \<Rightarrow> real \<Rightarrow> int \<Rightarrow> error + agent" where
  "DDPG_init h Actor Critic actor_lr critic_lr disc_rate bsize =
     (case Adam (parameters Actor) actor_lr of
        Inl e \<Rightarrow> Inl e
      | Inr aopt \<Rightarrow>
     (case Adam (parameters Critic) critic_lr of
        Inl e \<Rightarrow> Inl e
      | Inr copt \<Rightarrow>
     (let (h1, atrg) = deepcopy h Actor;
          (h2, ctrg) = deepcopy h1 Critic
      in Inr \<lparr>heap = h2, tau = 5 / 100, gamma = disc_rate, batch_size = bsize,
              buffer = ExpReplay_init 10000,
              actor = Actor, critic = Critic,
              actor_optimizer = aopt, critic_optimizer = copt,
              actor_target = atrg, critic_target = ctrg\<rparr>)))"

text \<open>\<^verbatim>\<open>DDPG.reset\<close> and \<^verbatim>\<open>DDPG.store\<close> (lines 78-82).\<close>

definition reset :: "agent \<Rightarrow> agent" where
  "reset s = s\<lparr>buffer := ExpReplay_clear (buffer s)\<rparr>"

definition store :: "agent \<Rightarrow> transition \<Rightarrow> agent" where
  "store s t = s\<lparr>buffer := ExpReplay_store (buffer s) t\<rparr>"

section \<open>Soft update of the targets\<close>

text \<open>
  \<^verbatim>\<open>DDPG.polyak_update\<close> (lines 99-109). The loop variable \<^verbatim>\<open>trg_param\<close> is a local name.
  The \<^verbatim>\<open>for\<close> statement binds it to the next target Parameter object; the body evaluates
  \<^verbatim>\<open>trg_param * (1.0 - self.tau) + src_param * self.tau\<close>, which builds a new tensor, and
  assigns that tensor to the name. A binding is therefore a Parameter of the store or a
  temporary tensor. Target and source have the same shape: the target is a deep copy.
\<close>

datatype binding = Unbound | Param addr | Temp param

definition blend :: "real \<Rightarrow> param \<Rightarrow> param \<Rightarrow> param" where
  "blend t trg src = map2 (\<lambda>x y. x * (1 - t) + y * t) trg src"

fun polyak_loop :: "real \<Rightarrow> (addr \<times> addr) list \<Rightarrow> heap \<times> binding \<Rightarrow> heap \<times> binding" where
  "polyak_loop t [] (h, trg_param) = (h, trg_param)"
| "polyak_loop t ((trg, src) # ps) (h, trg_param) =
     polyak_loop t ps (h, Temp (blend t (data (h ! trg)) (data (h ! src))))"

definition polyak_frame :: "agent \<Rightarrow> heap \<times> binding" where
  "polyak_frame s =
     polyak_loop (tau s) (zip (parameters (actor_target s)) (parameters (actor s)))
       (polyak_loop (tau s) (zip (parameters (critic_target s)) (parameters (critic s)))
          (heap s, Unbound))"

definition polyak_update :: "agent \<Rightarrow> agent" where
  "polyak_update s = s\<lparr>heap := fst (polyak_frame s)\<rparr>"

text \<open>The values a network's parameters hold in a store.\<close>

definition values_of :: "heap \<Rightarrow> network \<Rightarrow> param list" where
  "values_of h m = map (\<lambda>a. data (h ! a)) (parameters m)"

section \<open>Tensors and the computation graph\<close>

text \<open>
  A data tensor of \<^verbatim>\<open>update\<close> and \<^verbatim>\<open>act\<close> is one-dimensional (shape \<open>(n,)\<close>) or
  two-dimensional (a list of rows). A binary operation broadcasts as torch does: shapes are
  aligned at the last dimension, a dimension of size 1 is stretched, a one-dimensional operand
  is a single row; other shapes do not match (\<open>None\<close>, a RuntimeError in torch).
\<close>

datatype tensor = T1 "real list" | T2 "real list list"

fun tmap :: "(real \<Rightarrow> real) \<Rightarrow> tensor \<Rightarrow> tensor" where
  "tmap f (T1 v) = T1 (map f v)"
| "tmap f (T2 rows) = T2 (map (map f) rows)"

definition bc_row :: "(real \<Rightarrow> real \<Rightarrow> real) \<Rightarrow> real list \<Rightarrow> real list \<Rightarrow> real list option" where
  "bc_row f a b =
     (if length a = length b then Some (map2 f a b)
      else if length a = 1 then Some (map (f (hd a)) b)
      else if length b = 1 then Some (map (\<lambda>x. f x (hd b)) a)
      else None)"

definition bc_rows ::
    "(real \<Rightarrow> real \<Rightarrow> real) \<Rightarrow> real list list \<Rightarrow> real list list \<Rightarrow> real list list option" where
  "bc_rows f A B =
     (if length A = length B then those (map2 (bc_row f) A B)
      else if length A = 1 then those (map (bc_row f (hd A)) B)
      else if length B = 1 then those (map (\<lambda>a. bc_row f a (hd B)) A)
      else None)"

fun bop :: "(real \<Rightarrow> real \<Rightarrow> real) \<Rightarrow> tensor \<Rightarrow> tensor \<Rightarrow> tensor option" where
  "bop f (T1 a) (T1 b) = map_option T1 (bc_row f a b)"
| "bop f (T1 a) (T2 B) = map_option T2 (bc_rows f [a] B)"
| "bop f (T2 A) (T1 b) = map_option T2 (bc_rows f A [b])"
| "bop f (T2 A) (T2 B) = map_option T2 (bc_rows f A B)"

text \<open>\<^verbatim>\<open>torch.hstack\<close>: one-dimensional tensors are concatenated, two-dimensional ones are
  concatenated row by row and must have the same number of rows.\<close>

fun hstack :: "tensor \<Rightarrow> tensor \<Rightarrow> tensor option" where
  "hstack (T1 a) (T1 b) = Some (T1 (a @ b))"
| "hstack (T2 A) (T2 B) = (if length A = length B then Some (T2 (map2 (@) A B)) else None)"
| "hstack _ _ = None"

text \<open>\<^verbatim>\<open>Tensor.mean()\<close> over all elements (torch gives nan for an empty tensor, the model 0).\<close>

fun elements :: "tensor \<Rightarrow> real list" where
  "elements (T1 v) = v"
| "elements (T2 rows) = concat rows"

definition mean :: "tensor \<Rightarrow> real" where
  "mean t = sum_list (elements t) / real (length (elements t))"


text \<open>\<^verbatim>\<open>torch.tensor\<close> of a tuple of rows: the rows must have one length.\<close>

definition tensor2 :: "real list list \<Rightarrow> error + tensor" where
  "tensor2 rows =
     (if list_all (\<lambda>r. length r = length (hd rows)) rows then Inr (T2 rows) else Inl ValueError)"

text \<open>A network applied to a tensor works on the last dimension: on the vector, or on every
  row of a batch.\<close>

fun apply_net :: "(real list \<Rightarrow> real list) \<Rightarrow> tensor \<Rightarrow> tensor" where
  "apply_net f (T1 v) = T1 (f v)"
| "apply_net f (T2 rows) = T2 (map f rows)"

text \<open>
  A tensor as autograd sees it: the value as a function of the store (the recorded graph) and
  the Parameter objects the value depends on differentiably. \<open>detach\<close> freezes the value at
  the current store and forgets the dependencies.
\<close>

record 'a node =
  fn :: "heap \<Rightarrow> 'a"
  deps :: "addr set"

definition const_node :: "'a \<Rightarrow> 'a node" where
  "const_node t = \<lparr>fn = \<lambda>_. t, deps = {}\<rparr>"

definition detach :: "heap \<Rightarrow> 'a node \<Rightarrow> 'a node" where
  "detach h n = \<lparr>fn = \<lambda>_. fn n h, deps = {}\<rparr>"

definition call :: "network \<Rightarrow> tensor node \<Rightarrow> tensor node" where
  "call m x =
     \<lparr>fn = \<lambda>h. apply_net (forward m (values_of h m)) (fn x h),
      deps = set (parameters m) \<union> deps x\<rparr>"

definition g_tmap :: "(real \<Rightarrow> real) \<Rightarrow> tensor node \<Rightarrow> tensor node" where
  "g_tmap f a = \<lparr>fn = \<lambda>h. tmap f (fn a h), deps = deps a\<rparr>"

definition g_mean :: "tensor node \<Rightarrow> real node" where
  "g_mean a = \<lparr>fn = \<lambda>h. mean (fn a h), deps = deps a\<rparr>"

definition g_neg :: "real node \<Rightarrow> real node" where
  "g_neg a = \<lparr>fn = \<lambda>h. - fn a h, deps = deps a\<rparr>"

text \<open>A binary operation is checked on the shapes of the current values, in the store \<open>h\<close>.\<close>

definition g_lift ::
    "(tensor \<Rightarrow> tensor \<Rightarrow> tensor option) \<Rightarrow> heap \<Rightarrow> tensor node \<Rightarrow> tensor node \<Rightarrow> error + tensor node" where
  "g_lift ope h a b =
     (case ope (fn a h) (fn b h) of
        None \<Rightarrow> Inl RuntimeError
      | Some _ \<Rightarrow>
          Inr \<lparr>fn = \<lambda>h'. (case ope (fn a h') (fn b h') of Some t \<Rightarrow> t | None \<Rightarrow> T1 []),
               deps = deps a \<union> deps b\<rparr>)"

definition g_bop ::
    "(real \<Rightarrow> real \<Rightarrow> real) \<Rightarrow> heap \<Rightarrow> tensor node \<Rightarrow> tensor node \<Rightarrow> error + tensor node" where
  "g_bop f = g_lift (bop f)"

definition g_hstack :: "heap \<Rightarrow> tensor node \<Rightarrow> tensor node \<Rightarrow> error + tensor node" where
  "g_hstack = g_lift hstack"



section \<open>Action selection\<close>



fun find_exp :: "nat \<Rightarrow> int \<Rightarrow> real \<Rightarrow> int" where
  "find_exp 0 e m = e"
| "find_exp (Suc k) e m = (if 2 powi (e + 1) \<le> m then find_exp k (e + 1) m else e)"









section \<open>The learning step\<close>

text \<open>
  Automatic differentiation and the update rule of Adam belong to torch and are parameters of
  the model: \<open>nabla f v\<close> is the gradient at \<open>v\<close> of the scalar function \<open>f\<close> of one
  parameter tensor, and \<open>adam l st gs vs\<close> is one step of Adam with learning rate \<open>l\<close> from
  the state \<open>st\<close> on parameters with gradients \<open>gs\<close> and values \<open>vs\<close>, giving the new state
  and the new values.
\<close>

record lib =
  nabla :: "(param \<Rightarrow> real) \<Rightarrow> param \<Rightarrow> param"
  adam :: "real \<Rightarrow> opt_state \<Rightarrow> param option list \<Rightarrow> param list \<Rightarrow> opt_state \<times> param list"

text \<open>An update of the Parameter objects at the addresses in \<open>A\<close>.\<close>

definition upd_at :: "addr set \<Rightarrow> (addr \<Rightarrow> parameter \<Rightarrow> parameter) \<Rightarrow> heap \<Rightarrow> heap" where
  "upd_at A f h = map (\<lambda>(a, p). if a \<in> A then f a p else p) (zip [0 ..< length h] h)"

text \<open>\<^verbatim>\<open>Optimizer.zero_grad()\<close> resets the gradient of each of its parameters to \<^verbatim>\<open>None\<close>.\<close>

definition zero_grad :: "optimizer \<Rightarrow> heap \<Rightarrow> heap" where
  "zero_grad opt h = upd_at (set (opt_params opt)) (\<lambda>a p. p\<lparr>grad := None\<rparr>) h"

fun accumulate :: "param option \<Rightarrow> param \<Rightarrow> param option" where
  "accumulate None g = Some g"
| "accumulate (Some g0) g = Some (map2 (+) g0 g)"

text \<open>The gradient autograd computes for the Parameter at \<open>a\<close>: the loss as a function of that
  one tensor, the rest of the store \<open>h\<close> fixed.\<close>

definition grad_wrt :: "lib \<Rightarrow> real node \<Rightarrow> heap \<Rightarrow> addr \<Rightarrow> param" where
  "grad_wrt l loss h a = nabla l (\<lambda>v. fn loss (h[a := (h ! a)\<lparr>data := v\<rparr>])) (data (h ! a))"

text \<open>\<^verbatim>\<open>loss.backward()\<close>: a loss no Parameter reaches does not require grad and is refused;
  otherwise every Parameter the loss depends on accumulates the gradient of the loss with
  respect to itself.\<close>

definition backward :: "lib \<Rightarrow> real node \<Rightarrow> heap \<Rightarrow> error + heap" where
  "backward l loss h =
     (if deps loss = {} then Inl RuntimeError
      else Inr (upd_at (deps loss)
        (\<lambda>a p. p\<lparr>grad := accumulate (grad p) (grad_wrt l loss h a)\<rparr>) h))"

definition write_data :: "heap \<Rightarrow> (addr \<times> param) list \<Rightarrow> heap" where
  "write_data h avs = fold (\<lambda>(a, v) h'. h'[a := (h' ! a)\<lparr>data := v\<rparr>]) avs h"

text \<open>\<^verbatim>\<open>Optimizer.step()\<close>: one application of the rule to the optimizer's own parameters.\<close>

definition step :: "lib \<Rightarrow> optimizer \<Rightarrow> heap \<Rightarrow> optimizer \<times> heap" where
  "step l opt h =
     (let ps = opt_params opt;
          (st, vs) = adam l (lr opt) (opt_state opt) (map (\<lambda>a. grad (h ! a)) ps)
                       (map (\<lambda>a. data (h ! a)) ps)
      in (opt\<lparr>opt_state := st\<rparr>, write_data h (zip ps vs)))"

text \<open>\<^verbatim>\<open>self.transition(*zip(*transitions))\<close> and the five \<^verbatim>\<open>torch.tensor\<close> calls (lines
  117-124): an empty sample leaves the namedtuple without arguments (TypeError).\<close>

definition batch_of ::
    "transition list \<Rightarrow> error + (tensor \<times> tensor \<times> tensor \<times> tensor \<times> tensor)" where
  "batch_of ts =
     (if ts = [] then Inl TypeError
      else case tensor2 (map state ts) of
        Inl e \<Rightarrow> Inl e
      | Inr states \<Rightarrow>
     (case tensor2 (map action ts) of
        Inl e \<Rightarrow> Inl e
      | Inr actions \<Rightarrow>
     (let rewards = T1 (map reward ts);
          dones = T1 (map (\<lambda>t. of_bool (done_t t)) ts)
      in case tensor2 (map next_state ts) of
        Inl e \<Rightarrow> Inl e
      | Inr next_states \<Rightarrow> Inr (states, actions, rewards, dones, next_states))))"

text \<open>Lines 125-130: the regression target \<^verbatim>\<open>y\<close>.\<close>

definition td_target :: "agent \<Rightarrow> tensor \<Rightarrow> tensor \<Rightarrow> tensor \<Rightarrow> error + tensor node" where
  "td_target s rewards dones next_states =
     (let h = heap s;
          next_actions = call (actor_target s) (const_node next_states)
      in case g_hstack h (const_node next_states) next_actions of
        Inl e \<Rightarrow> Inl e
      | Inr nsa \<Rightarrow>
     (case g_bop (*) h (const_node (tmap (\<lambda>d. gamma s * d) (tmap (\<lambda>d. 1 - d) dones)))
             (call (critic_target s) nsa) of
        Inl e \<Rightarrow> Inl e
      | Inr boot \<Rightarrow> g_bop (+) h (const_node rewards) boot))"

text \<open>Lines 131-132: \<^verbatim>\<open>advantage\<close> and \<^verbatim>\<open>critic_loss\<close>.\<close>

definition critic_loss ::
    "agent \<Rightarrow> tensor \<times> tensor \<times> tensor \<times> tensor \<times> tensor \<Rightarrow> error + real node" where
  "critic_loss s batch =
     (case batch of (states, actions, rewards, dones, next_states) \<Rightarrow>
     (case td_target s rewards dones next_states of
        Inl e \<Rightarrow> Inl e
      | Inr y \<Rightarrow>
     (case g_hstack (heap s) (const_node states) (const_node actions) of
        Inl e \<Rightarrow> Inl e
      | Inr sa \<Rightarrow>
     (case g_bop (-) (heap s) (call (critic s) sa) (detach (heap s) y) of
        Inl e \<Rightarrow> Inl e
      | Inr advantage \<Rightarrow> Inr (g_mean (g_tmap (\<lambda>v. v ^ 2) advantage))))))"

text \<open>Line 140: \<^verbatim>\<open>actor_loss\<close>.\<close>

definition actor_loss :: "agent \<Rightarrow> tensor \<Rightarrow> error + real node" where
  "actor_loss s states =
     (case g_hstack (heap s) (const_node states) (call (actor s) (const_node states)) of
        Inl e \<Rightarrow> Inl e
      | Inr sa \<Rightarrow> Inr (g_neg (g_mean (call (critic s) sa))))"

text \<open>\<^verbatim>\<open>zero_grad()\<close>, \<^verbatim>\<open>backward()\<close>, \<^verbatim>\<open>step()\<close> for one optimizer and one loss (lines 135-137
  and 143-145).\<close>

definition optimize ::
    "lib \<Rightarrow> optimizer \<Rightarrow> real node \<Rightarrow> heap \<Rightarrow> error option \<times> optimizer \<times> heap" where
  "optimize l opt loss h =
     (let h1 = zero_grad opt h
      in case backward l loss h1 of
           Inl e \<Rightarrow> (Some e, opt, h1)
         | Inr h2 \<Rightarrow> (case step l opt h2 of (opt', h3) \<Rightarrow> (None, opt', h3)))"

text \<open>Lines 135-137 and lines 143-145 on the agent.\<close>

definition optimize_critic :: "lib \<Rightarrow> agent \<Rightarrow> real node \<Rightarrow> error option \<times> agent" where
  "optimize_critic l s loss =
     (case optimize l (critic_optimizer s) loss (heap s) of
        (err, opt, h) \<Rightarrow> (err, s\<lparr>heap := h, critic_optimizer := opt\<rparr>))"

definition optimize_actor :: "lib \<Rightarrow> agent \<Rightarrow> real node \<Rightarrow> error option \<times> agent" where
  "optimize_actor l s loss =
     (case optimize l (actor_optimizer s) loss (heap s) of
        (err, opt, h) \<Rightarrow> (err, s\<lparr>heap := h, actor_optimizer := opt\<rparr>))"

text \<open>\<^verbatim>\<open>DDPG.update\<close> (lines 111-145). The result is the exception raised, if any, and the agent
  as the call leaves it.\<close>

definition update :: "lib \<Rightarrow> agent \<Rightarrow> (nat \<Rightarrow> nat) \<Rightarrow> error option \<times> agent" where
  "update l s rng =
     (if ExpReplay_len (buffer s) < batch_size s then (None, s)
      else
        let transitions = ExpReplay_sample (buffer s) (batch_size s) rng
        in case batch_of transitions of
          Inl e \<Rightarrow> (Some e, s)
        | Inr batch \<Rightarrow>
       (case critic_loss s batch of
          Inl e \<Rightarrow> (Some e, s)
        | Inr closs \<Rightarrow>
       (case optimize_critic l s closs of
          (Some e, s1) \<Rightarrow> (Some e, s1)
        | (None, s1) \<Rightarrow>
       (case actor_loss s1 (fst batch) of
          Inl e \<Rightarrow> (Some e, s1)
        | Inr aloss \<Rightarrow> optimize_actor l s1 aloss))))"

section \<open>Persistence\<close>

text \<open>
  A saved artifact is the state dict of a module (the values of its parameters, in order) or
  of an optimizer (learning rate of the parameter group, per-parameter state, number of
  parameters in the group). The file system maps a path to the artifact stored there.
\<close>

record opt_dict =
  d_lr :: real
  d_state :: opt_state
  d_nparams :: nat

datatype blob = ModuleDict "param list" | OptimDict opt_dict

type_synonym files = "string \<Rightarrow> blob option"

definition state_dict :: "heap \<Rightarrow> network \<Rightarrow> blob" where
  "state_dict h m = ModuleDict (values_of h m)"

definition opt_state_dict :: "optimizer \<Rightarrow> blob" where
  "opt_state_dict opt =
     OptimDict \<lparr>d_lr = lr opt, d_state = opt_state opt, d_nparams = length (opt_params opt)\<rparr>"

definition torch_save :: "blob \<Rightarrow> string \<Rightarrow> files \<Rightarrow> files" where
  "torch_save b path fs = fs(path \<mapsto> b)"

definition torch_load :: "files \<Rightarrow> string \<Rightarrow> error + blob" where
  "torch_load fs path = (case fs path of None \<Rightarrow> Inl FileNotFoundError | Some b \<Rightarrow> Inr b)"

text \<open>\<^verbatim>\<open>DDPG.save\<close> (lines 147-152).\<close>

definition save :: "agent \<Rightarrow> string \<Rightarrow> files \<Rightarrow> files" where
  "save s filename fs =
     torch_save (opt_state_dict (actor_optimizer s)) (filename @ ''_actor_hyp_params'')
       (torch_save (state_dict (heap s) (actor s)) (filename @ ''_actor'')
         (torch_save (opt_state_dict (critic_optimizer s)) (filename @ ''_critic_hyp_params'')
           (torch_save (state_dict (heap s) (critic s)) (filename @ ''_critic'') fs)))"

text \<open>
  \<^verbatim>\<open>Module.load_state_dict\<close>: every entry whose shape matches is copied into the storage of
  its Parameter; a shape mismatch, and a different number of entries, are collected and
  raised as one RuntimeError after the copying. A state dict of an optimizer has none of the
  module's keys: nothing is copied.
\<close>

definition copy_entry :: "addr \<times> param \<Rightarrow> heap \<Rightarrow> heap" where
  "copy_entry av h =
     (case av of (a, v) \<Rightarrow>
        if length v = length (data (h ! a)) then h[a := (h ! a)\<lparr>data := v\<rparr>] else h)"

fun load_state_dict :: "heap \<Rightarrow> network \<Rightarrow> blob \<Rightarrow> error option \<times> heap" where
  "load_state_dict h m (ModuleDict vs) =
     (if length vs = length (parameters m)
         \<and> list_all (\<lambda>(a, v). length v = length (data (h ! a))) (zip (parameters m) vs)
      then None else Some RuntimeError,
      fold copy_entry (zip (parameters m) vs) h)"
| "load_state_dict h m (OptimDict d) = (Some RuntimeError, h)"

text \<open>\<^verbatim>\<open>Optimizer.load_state_dict\<close>: the saved group must have as many parameters as the
  optimizer's group (ValueError); a module's state dict has no \<^verbatim>\<open>param_groups\<close> (KeyError).\<close>

fun opt_load_state_dict :: "optimizer \<Rightarrow> blob \<Rightarrow> error option \<times> optimizer" where
  "opt_load_state_dict opt (OptimDict d) =
     (if d_nparams d \<noteq> length (opt_params opt) then (Some ValueError, opt)
      else (None, opt\<lparr>lr := d_lr d, opt_state := d_state d\<rparr>))"
| "opt_load_state_dict opt (ModuleDict vs) = (Some KeyError, opt)"

text \<open>\<^verbatim>\<open>DDPG.load\<close> (lines 154-161), statement by statement.\<close>

definition load_critic :: "agent \<Rightarrow> string \<Rightarrow> files \<Rightarrow> error option \<times> agent" where
  "load_critic s filename fs =
     (case torch_load fs (filename @ ''_critic'') of
        Inl e \<Rightarrow> (Some e, s)
      | Inr b \<Rightarrow> (case load_state_dict (heap s) (critic s) b of (err, h) \<Rightarrow> (err, s\<lparr>heap := h\<rparr>)))"

definition load_critic_optimizer :: "agent \<Rightarrow> string \<Rightarrow> files \<Rightarrow> error option \<times> agent" where
  "load_critic_optimizer s filename fs =
     (case torch_load fs (filename @ ''_critic_hyp_params'') of
        Inl e \<Rightarrow> (Some e, s)
      | Inr b \<Rightarrow> (case opt_load_state_dict (critic_optimizer s) b of
                   (err, opt) \<Rightarrow> (err, s\<lparr>critic_optimizer := opt\<rparr>)))"

definition load_actor :: "agent \<Rightarrow> string \<Rightarrow> files \<Rightarrow> error option \<times> agent" where
  "load_actor s filename fs =
     (case torch_load fs (filename @ ''_actor'') of
        Inl e \<Rightarrow> (Some e, s)
      | Inr b \<Rightarrow> (case load_state_dict (heap s) (actor s) b of (err, h) \<Rightarrow> (err, s\<lparr>heap := h\<rparr>)))"

definition load_actor_optimizer :: "agent \<Rightarrow> string \<Rightarrow> files \<Rightarrow> error option \<times> agent" where
  "load_actor_optimizer s filename fs =
     (case torch_load fs (filename @ ''_actor_hyp_params'') of
        Inl e \<Rightarrow> (Some e, s)
      | Inr b \<Rightarrow> (case opt_load_state_dict (actor_optimizer s) b of
                   (err, opt) \<Rightarrow> (err, s\<lparr>actor_optimizer := opt\<rparr>)))"

definition load :: "agent \<Rightarrow> string \<Rightarrow> files \<Rightarrow> error option \<times> agent" where
  "load s filename fs =
     (case load_critic s filename fs of
        (Some e, s1) \<Rightarrow> (Some e, s1)
      | (None, s1) \<Rightarrow>
     (case load_critic_optimizer s1 filename fs of
        (Some e, s2) \<Rightarrow> (Some e, s2)
      | (None, s2) \<Rightarrow>
     (case load_actor s2 filename fs of
        (Some e, s3) \<Rightarrow> (Some e, s3)
      | (None, s3) \<Rightarrow> load_actor_optimizer s3 filename fs)))"

section \<open>Sequences of calls\<close>

text \<open>The methods that change the agent, other than \<open>polyak_update\<close>, and the agent a sequence
  of such calls leaves, whether or not a call raised (\<open>act\<close> and \<open>save\<close> do not change the
  agent).\<close>

datatype method_call =
    Store transition
  | Reset
  | Update "nat \<Rightarrow> nat"
  | Load string files

fun exec :: "lib \<Rightarrow> method_call \<Rightarrow> agent \<Rightarrow> agent" where
  "exec l (Store t) s = store s t"
| "exec l Reset s = reset s"
| "exec l (Update rng) s = snd (update l s rng)"
| "exec l (Load filename fs) s = snd (load s filename fs)"

definition run :: "lib \<Rightarrow> method_call list \<Rightarrow> agent \<Rightarrow> agent" where
  "run l cs s = fold (exec l) cs s"

section \<open>Well-formed agents\<close>

text \<open>Two agents whose networks have identical shapes: parameter by parameter the same
  number of elements, and optimizers over as many parameters.\<close>

definition same_shapes :: "agent \<Rightarrow> agent \<Rightarrow> bool" where
  "same_shapes s s' \<longleftrightarrow>
     map length (values_of (heap s') (critic s')) = map length (values_of (heap s) (critic s))
   \<and> map length (values_of (heap s') (actor s')) = map length (values_of (heap s) (actor s))
   \<and> length (opt_params (critic_optimizer s')) = length (opt_params (critic_optimizer s))
   \<and> length (opt_params (actor_optimizer s')) = length (opt_params (actor_optimizer s))"

text \<open>Each optimizer holds the parameters of its network, and no network is without
  parameters, as \<open>DDPG_init\<close> builds the agent.\<close>

definition wired :: "agent \<Rightarrow> bool" where
  "wired s \<longleftrightarrow>
     opt_params (critic_optimizer s) = parameters (critic s)
   \<and> opt_params (actor_optimizer s) = parameters (actor s)
   \<and> parameters (critic s) \<noteq> [] \<and> parameters (actor s) \<noteq> []"

text \<open>The online networks of an agent are made of different Parameter objects that exist in
  the store (\<^verbatim>\<open>Module.parameters()\<close> lists each object once; actor and critic are different
  modules).\<close>

definition separate :: "agent \<Rightarrow> bool" where
  "separate s \<longleftrightarrow>
     distinct (parameters (critic s) @ parameters (actor s))
   \<and> list_all (\<lambda>a. a < length (heap s)) (parameters (critic s) @ parameters (actor s))"

text \<open>The target networks live at addresses from \<open>n\<close> on, everything the optimizers and
  the online networks refer to lies below \<open>n\<close>.\<close>

definition targets_apart :: "nat \<Rightarrow> agent \<Rightarrow> bool" where
  "targets_apart n s \<longleftrightarrow>
     list_all (\<lambda>a. a < n)
       (parameters (actor s) @ parameters (critic s)
          @ opt_params (actor_optimizer s) @ opt_params (critic_optimizer s))
   \<and> list_all (\<lambda>a. n \<le> a \<and> a < length (heap s))
       (parameters (actor_target s) @ parameters (critic_target s))"

text \<open>The addresses the online networks and the optimizers refer to.\<close>

definition trainable :: "agent \<Rightarrow> addr set" where
  "trainable s = set (parameters (critic s)) \<union> set (parameters (actor s))
      \<union> set (opt_params (critic_optimizer s)) \<union> set (opt_params (actor_optimizer s))"

text \<open>What a call leaves alone: the networks, the parameter lists of the optimizers, the size of
  the store and the data outside the addresses in \<open>W\<close>.\<close>

definition frame :: "addr set \<Rightarrow> agent \<Rightarrow> agent \<Rightarrow> bool" where
  "frame W s s' \<longleftrightarrow>
     actor s' = actor s \<and> critic s' = critic s
   \<and> actor_target s' = actor_target s \<and> critic_target s' = critic_target s
   \<and> opt_params (actor_optimizer s') = opt_params (actor_optimizer s)
   \<and> opt_params (critic_optimizer s') = opt_params (critic_optimizer s)
   \<and> length (heap s') = length (heap s)
   \<and> (\<forall>a < length (heap s). a \<notin> W \<longrightarrow> data (heap s' ! a) = data (heap s ! a))"

section \<open>A concrete agent\<close>

text \<open>
  A small instance on which the model is run: networks of one linear layer without bias (each
  parameter tensor is the weight row of one output), an actor from a one-element state to a
  one-element action, a critic from state and action to one value. \<open>ex_lib\<close> stands in for
  torch: a forward difference for the gradient and a plain gradient step for the optimizer
  rule.
\<close>

definition linear :: "param list \<Rightarrow> real list \<Rightarrow> real list" where
  "linear ws x = map (\<lambda>w. sum_list (map2 (*) w x)) ws"

definition ex_heap :: heap where
  "ex_heap = [\<lparr>data = [1], grad = None\<rparr>, \<lparr>data = [1, 1], grad = None\<rparr>]"

definition ex_actor :: network where
  "ex_actor = \<lparr>forward = linear, parameters = [0]\<rparr>"

definition ex_critic :: network where
  "ex_critic = \<lparr>forward = linear, parameters = [1]\<rparr>"

definition ex_agent :: agent where
  "ex_agent =
     \<lparr>heap = [\<lparr>data = [1], grad = None\<rparr>, \<lparr>data = [1, 1], grad = None\<rparr>,
              \<lparr>data = [1], grad = None\<rparr>, \<lparr>data = [1, 1], grad = None\<rparr>],
      tau = 5 / 100, gamma = 1 / 2, batch_size = 2,
      buffer = \<lparr>capacity = 10000, memory = []\<rparr>,
      actor = ex_actor, critic = ex_critic,
      actor_optimizer = \<lparr>opt_params = [0], lr = 1 / 10, opt_state = []\<rparr>,
      critic_optimizer = \<lparr>opt_params = [1], lr = 1 / 10, opt_state = []\<rparr>,
      actor_target = \<lparr>forward = linear, parameters = [2]\<rparr>,
      critic_target = \<lparr>forward = linear, parameters = [3]\<rparr>\<rparr>"

text \<open>The same agent once its online networks have moved away from the targets.\<close>

definition ex_trained :: agent where
  "ex_trained =
     ex_agent\<lparr>heap := [\<lparr>data = [2], grad = None\<rparr>, \<lparr>data = [3, 2], grad = None\<rparr>,
                       \<lparr>data = [1], grad = None\<rparr>, \<lparr>data = [1, 1], grad = None\<rparr>]\<rparr>"

text \<open>Two stored transitions: the first is not terminal, the second is.\<close>

definition ex_t1 :: transition where
  "ex_t1 = \<lparr>state = [0], action = [0], reward = 0, next_state = [2], done_t = False\<rparr>"

definition ex_t2 :: transition where
  "ex_t2 = \<lparr>state = [1], action = [0], reward = 1, next_state = [4], done_t = True\<rparr>"

definition ex_filled :: agent where
  "ex_filled = store (store ex_agent ex_t1) ex_t2"

definition ex_lib :: lib where
  "ex_lib =
     \<lparr>nabla = (\<lambda>f v. map (\<lambda>i. f (v[i := v ! i + 1]) - f v) [0 ..< length v]),
      adam = (\<lambda>l st gs vs.
        (map (\<lambda>v. (1, [], [])) vs,
         map2 (\<lambda>g v. case g of None \<Rightarrow> v | Some d \<Rightarrow> map2 (\<lambda>x y. x - l * y) v d) gs vs))\<rparr>"

text \<open>A checkpoint directory in which the two artifacts of the actor are missing.\<close>

definition ex_partial :: files where
  "ex_partial =
     [''ckpt_critic'' \<mapsto> ModuleDict [[3, 2]],
      ''ckpt_critic_hyp_params'' \<mapsto>
         OptimDict \<lparr>d_lr = 1 / 5, d_state = [(1, [0, 0], [0, 0])], d_nparams = 1\<rparr>]"

definition ex_batch :: "tensor \<times> tensor \<times> tensor \<times> tensor \<times> tensor" where
  "ex_batch = (T2 [[0], [1]], T2 [[0], [0]], T1 [0, 1], T1 [0, 1], T2 [[2], [4]])"

section \<open>The critic loss in the words of the specification\<close>

text \<open>
  For comparison with \<open>td_target\<close> and \<open>critic_loss\<close>: the target of one transition,
  \<open>reward + \<gamma> \<cdot> (1 - done) \<cdot> critic_target(next_state, actor_target(next_state))\<close>, and the mean
  over the transitions of the squared difference between \<open>critic(state, action)\<close> and it.
\<close>

definition claimed_td_target :: "agent \<Rightarrow> transition \<Rightarrow> real list" where
  "claimed_td_target s t =
     (let next_action =
            forward (actor_target s) (values_of (heap s) (actor_target s)) (next_state t)
      in map (\<lambda>q. reward t + gamma s * (1 - of_bool (done_t t)) * q)
           (forward (critic_target s) (values_of (heap s) (critic_target s))
              (next_state t @ next_action)))"

definition claimed_critic_loss :: "agent \<Rightarrow> transition list \<Rightarrow> real" where
  "claimed_critic_loss s ts =
     mean (T2 (map (\<lambda>t. map2 (\<lambda>q y. (q - y) ^ 2)
                 (forward (critic s) (values_of (heap s) (critic s)) (state t @ action t))
                 (claimed_td_target s t)) ts))"

section \<open>Properties\<close>

lemma polyak_loop_fst: "fst (polyak_loop t ps hb) = fst hb"
  by (induction ps arbitrary: hb) (auto simp: split_paired_all)

lemma polyak_update_id: "polyak_update s = s"
  by (simp add: polyak_update_def polyak_frame_def polyak_loop_fst)

lemma ex_init: "DDPG_init ex_heap ex_actor ex_critic (1 / 10) (1 / 10) (1 / 2) 2 = Inr ex_agent"
  by (simp add: DDPG_init_def Adam_def ex_actor_def ex_critic_def deepcopy_def ex_heap_def
      ex_agent_def ExpReplay_init_def)

subsection \<open>Constructor constants\<close>

text \<open>
  Claim C10: for every choice of the constructor arguments, an agent that is constructed has
  the soft-update rate 0.05 and an empty replay buffer of capacity 10000; no argument of the
  constructor reaches either value.
\<close>

theorem DDPG_init_constants:
  "DDPG_init h Actor Critic actor_lr critic_lr disc_rate bsize = Inr s \<Longrightarrow>
     tau s = 5 / 100 \<and> capacity (buffer s) = 10000 \<and> memory (buffer s) = []"
  by (auto simp: DDPG_init_def ExpReplay_init_def Let_def split: sum.splits prod.splits)

theorem DDPG_init_constants_witness:
  "DDPG_init ex_heap ex_actor ex_critic (1 / 10) (1 / 10) (1 / 2) 2 = Inr ex_agent
     \<and> tau ex_agent = 5 / 100 \<and> capacity (buffer ex_agent) = 10000"
  using DDPG_init_constants [OF ex_init] ex_init by blast

subsection \<open>The soft update\<close>

text \<open>
  Claim C1: after \<open>polyak_update\<close> each stored target parameter should be
  \<open>\<tau> \<cdot> source + (1 - \<tau>) \<cdot> target\<close>. On the agent \<open>ex_trained\<close> (critic \<open>[3, 2]\<close> against
  target \<open>[1, 1]\<close>, actor \<open>[2]\<close> against target \<open>[1]\<close>) the stored targets after the call are
  the old ones, not the blended values \<open>[1.1, 1.05]\<close> and \<open>[1.05]\<close>: the blend is computed,
  bound to the local name and dropped.
\<close>

theorem polyak_update_discards:
  "values_of (heap (polyak_update ex_trained)) (critic_target ex_trained) = [[1, 1]]
   \<and> values_of (heap (polyak_update ex_trained)) (actor_target ex_trained) = [[1]]
   \<and> map2 (blend (tau ex_trained)) (values_of (heap ex_trained) (critic_target ex_trained))
        (values_of (heap ex_trained) (critic ex_trained)) = [[11 / 10, 21 / 20]]
   \<and> map2 (blend (tau ex_trained)) (values_of (heap ex_trained) (actor_target ex_trained))
        (values_of (heap ex_trained) (actor ex_trained)) = [[21 / 20]]
   \<and> snd (polyak_frame ex_trained) = Temp [21 / 20]"
  by (simp add: polyak_update_id polyak_frame_def values_of_def ex_trained_def ex_agent_def
      ex_actor_def ex_critic_def blend_def)

subsection \<open>The learning step below the batch size\<close>

text \<open>
  Claim C2: when the replay buffer holds fewer transitions than \<open>batch_size\<close>, \<open>update\<close>
  returns without an exception and leaves the whole agent, so the parameters of actor and
  critic and both optimizer states, as it was.
\<close>

theorem update_noop:
  "ExpReplay_len (buffer s) < batch_size s \<Longrightarrow> update l s rng = (None, s)"
  by (simp add: update_def)

theorem update_noop_witness:
  "ExpReplay_len (buffer ex_agent) < batch_size ex_agent
     \<and> update ex_lib ex_agent (\<lambda>k. k) = (None, ex_agent)"
proof -
  have h: "ExpReplay_len (buffer ex_agent) < batch_size ex_agent"
    by (simp add: ExpReplay_len_def ex_agent_def)
  show ?thesis using h update_noop [OF h, of ex_lib "\<lambda>k. k"] by simp
qed

subsection \<open>The cast to float32\<close>



lemma find_exp_hi: "m < 2 powi (e0 + int k + 1) \<Longrightarrow> m < 2 powi (find_exp k e0 m + 1)"
proof (induction k arbitrary: e0)
  case 0
  then show ?case by simp
next
  case (Suc k)
  show ?case
  proof (cases "2 powi (e0 + 1) \<le> m")
    case True
    have "m < 2 powi (e0 + 1 + int k + 1)" using Suc.prems by (simp add: algebra_simps)
    then have "m < 2 powi (find_exp k (e0 + 1) m + 1)" by (rule Suc.IH)
    then show ?thesis using True by simp
  next
    case False
    then show ?thesis by simp
  qed
qed









subsection \<open>Action selection\<close>













subsection \<open>The critic loss\<close>

lemmas ex_defs = ex_filled_def ex_agent_def ex_t1_def ex_t2_def ex_actor_def ex_critic_def
  store_def ExpReplay_store_def ExpReplay_sample_def ExpReplay_len_def linear_def values_of_def

lemmas graph_defs = td_target_def critic_loss_def actor_loss_def g_hstack_def g_bop_def
  g_lift_def call_def const_node_def detach_def g_mean_def g_tmap_def g_neg_def bc_rows_def
  bc_row_def mean_def

lemma ex_sample:
  "batch_of (ExpReplay_sample (buffer ex_filled) (batch_size ex_filled) (\<lambda>k. k)) = Inr ex_batch"
  by (simp add: ex_defs batch_of_def tensor2_def ex_batch_def upt_rec)

text \<open>
  Claim C3: the target of each sampled transition should be
  \<open>reward + \<gamma> \<cdot> (1 - done) \<cdot> critic_target(next_state, actor_target(next_state))\<close> and the critic
  loss the mean squared error against it. On the agent \<open>ex_filled\<close> (two stored transitions,
  batch size 2) the rewards have shape \<open>(2,)\<close> and the output of the target critic has shape
  \<open>(2, 1)\<close>, so the product and the sum broadcast to shape \<open>(2, 2)\<close>: entry \<open>(i, j)\<close> of \<open>y\<close>
  joins the reward and the done flag of transition \<open>j\<close> with the bootstrap value of
  transition \<open>i\<close>. The code's \<open>y\<close> is \<open>[[2, 1], [4, 1]]\<close> and its loss \<open>7/2\<close>, where the claim
  gives the targets \<open>2\<close> and \<open>1\<close> and the loss \<open>2\<close>.
\<close>

theorem critic_loss_broadcast:
  "batch_of (ExpReplay_sample (buffer ex_filled) (batch_size ex_filled) (\<lambda>k. k)) = Inr ex_batch
   \<and> map_sum id (\<lambda>y. fn y (heap ex_filled))
        (td_target ex_filled (T1 [0, 1]) (T1 [0, 1]) (T2 [[2], [4]])) = Inr (T2 [[2, 1], [4, 1]])
   \<and> map_sum id (\<lambda>L. fn L (heap ex_filled)) (critic_loss ex_filled ex_batch) = Inr (7 / 2)
   \<and> map (claimed_td_target ex_filled) [ex_t1, ex_t2] = [[2], [1]]
   \<and> claimed_critic_loss ex_filled [ex_t1, ex_t2] = 2"
proof -
  have "map_sum id (\<lambda>y. fn y (heap ex_filled))
          (td_target ex_filled (T1 [0, 1]) (T1 [0, 1]) (T2 [[2], [4]])) = Inr (T2 [[2, 1], [4, 1]])"
    by (simp add: ex_defs graph_defs)
  moreover have "map_sum id (\<lambda>L. fn L (heap ex_filled)) (critic_loss ex_filled ex_batch)
      = Inr (7 / 2)"
    by (simp add: ex_defs ex_batch_def graph_defs)
  moreover have "map (claimed_td_target ex_filled) [ex_t1, ex_t2] = [[2], [1]]"
    by (simp add: ex_defs claimed_td_target_def)
  moreover have "claimed_critic_loss ex_filled [ex_t1, ex_t2] = 2"
    by (simp add: ex_defs claimed_critic_loss_def claimed_td_target_def mean_def)
  ultimately show ?thesis using ex_sample by simp
qed

subsection \<open>Copying into the store\<close>

lemma length_copy_entry [simp]: "length (copy_entry av h) = length h"
  by (cases av) (simp add: copy_entry_def)

lemma length_fold_copy [simp]: "length (fold copy_entry avs h) = length h"
  by (induction avs arbitrary: h) auto

lemma copy_entry_other: "a \<noteq> fst av \<Longrightarrow> copy_entry av h ! a = h ! a"
  by (cases av) (simp add: copy_entry_def)

lemma fold_copy_other: "a \<notin> fst ` set avs \<Longrightarrow> fold copy_entry avs h ! a = h ! a"
  by (induction avs arbitrary: h) (auto simp: copy_entry_other)

lemma fold_copy_grad: "grad (fold copy_entry avs h ! a) = grad (h ! a)"
proof (induction avs arbitrary: h)
  case Nil
  then show ?case by simp
next
  case (Cons av avs)
  obtain b v where av: "av = (b, v)" by (cases av)
  have "grad (copy_entry av h ! a) = grad (h ! a)"
    by (cases "a = b"; cases "b < length h") (auto simp: av copy_entry_def list_update_beyond)
  with Cons show ?case by simp
qed

text \<open>What \<open>load_state_dict\<close> has copied can be read back.\<close>


lemma fold_copy_read:
  "distinct ps \<Longrightarrow> length vs = length ps \<Longrightarrow> \<forall>a \<in> set ps. a < length h \<Longrightarrow>
   map length vs = map (\<lambda>a. length (data (h ! a))) ps \<Longrightarrow>
   map (\<lambda>a. data (fold copy_entry (zip ps vs) h ! a)) ps = vs"
proof (induction ps arbitrary: vs h)
  case Nil
  then show ?case by simp
next
  case (Cons p ps)
  then obtain v vs' where vs: "vs = v # vs'" by (cases vs) auto
  let ?h = "copy_entry (p, v) h"
  have hp: "?h = h[p := (h ! p)\<lparr>data := v\<rparr>]" using Cons.prems vs by (simp add: copy_entry_def)
  have other: "?h ! a = h ! a" if "a \<in> set ps" for a
  proof -
    have "a \<noteq> p" using that Cons.prems(1) by auto
    then show ?thesis by (simp add: hp)
  qed
  have "map (\<lambda>a. data (fold copy_entry (zip ps vs') ?h ! a)) ps = vs'"
  proof (rule Cons.IH)
    show "distinct ps" using Cons.prems by simp
    show "length vs' = length ps" using Cons.prems vs by simp
    show "\<forall>a\<in>set ps. a < length ?h" using Cons.prems by simp
    show "map length vs' = map (\<lambda>a. length (data (?h ! a))) ps"
      using Cons.prems(4) vs other by simp
  qed
  moreover have "fold copy_entry (zip ps vs') ?h ! p = ?h ! p"
    using Cons.prems(1) by (intro fold_copy_other) (auto dest: set_zip_leftD)
  moreover have "data (?h ! p) = v" using Cons.prems(3) by (simp add: hp)
  ultimately show ?case by (simp add: vs)
qed

lemma shapes_all:
  "length vs = length ps \<Longrightarrow> map length vs = map (\<lambda>a. length (data (h ! a))) ps \<Longrightarrow>
   list_all (\<lambda>(a, v). length v = length (data (h ! a))) (zip ps vs)"
  by (induction vs ps rule: list_induct2) auto

lemma load_state_dict_ok:
  assumes "distinct (parameters m)" "\<forall>a \<in> set (parameters m). a < length h"
    and "map length vs = map length (values_of h m)"
  shows "load_state_dict h m (ModuleDict vs) = (None, fold copy_entry (zip (parameters m) vs) h)"
    and "values_of (fold copy_entry (zip (parameters m) vs) h) m = vs"
proof -
  have len: "length vs = length (parameters m)"
    using assms(3) by (metis length_map values_of_def)
  have shp: "map length vs = map (\<lambda>a. length (data (h ! a))) (parameters m)"
    using assms(3) by (simp add: values_of_def comp_def)
  have "list_all (\<lambda>(a, v). length v = length (data (h ! a))) (zip (parameters m) vs)"
    using len shp by (rule shapes_all)
  then show "load_state_dict h m (ModuleDict vs) = (None, fold copy_entry (zip (parameters m) vs) h)"
    using len by simp
  show "values_of (fold copy_entry (zip (parameters m) vs) h) m = vs"
    unfolding values_of_def using fold_copy_read [OF assms(1) len assms(2) shp] .
qed

lemma values_of_fold_copy_other:
  assumes "set (parameters m) \<inter> set ps = {}"
  shows "values_of (fold copy_entry (zip ps vs) h) m = values_of h m"
proof -
  have "fold copy_entry (zip ps vs) h ! a = h ! a" if "a \<in> set (parameters m)" for a
  proof (rule fold_copy_other)
    show "a \<notin> fst ` set (zip ps vs)"
      using that assms by (auto dest: set_zip_leftD)
  qed
  then show ?thesis by (simp add: values_of_def)
qed

lemma save_lookup:
  "save s filename fs (filename @ ''_critic'') = Some (state_dict (heap s) (critic s))"
  "save s filename fs (filename @ ''_critic_hyp_params'')
     = Some (opt_state_dict (critic_optimizer s))"
  "save s filename fs (filename @ ''_actor'') = Some (state_dict (heap s) (actor s))"
  "save s filename fs (filename @ ''_actor_hyp_params'')
     = Some (opt_state_dict (actor_optimizer s))"
  by (simp_all add: save_def torch_save_def)

lemma save_frame:
  "p \<notin> {filename @ ''_critic'', filename @ ''_critic_hyp_params'', filename @ ''_actor'',
        filename @ ''_actor_hyp_params''} \<Longrightarrow> save s filename fs p = fs p"
  by (simp add: save_def torch_save_def)

lemma load_saved:
  assumes sep: "separate s'" and shp: "same_shapes s s'"
  shows "load s' filename (save s filename fs) =
     (None, s'\<lparr>heap := fold copy_entry (zip (parameters (actor s')) (values_of (heap s) (actor s)))
                  (fold copy_entry (zip (parameters (critic s')) (values_of (heap s) (critic s)))
                     (heap s')),
              critic_optimizer := (critic_optimizer s')
                 \<lparr>lr := lr (critic_optimizer s), opt_state := opt_state (critic_optimizer s)\<rparr>,
              actor_optimizer := (actor_optimizer s')
                 \<lparr>lr := lr (actor_optimizer s), opt_state := opt_state (actor_optimizer s)\<rparr>\<rparr>)"
proof -
  let ?cv = "values_of (heap s) (critic s)" and ?av = "values_of (heap s) (actor s)"
  let ?h1 = "fold copy_entry (zip (parameters (critic s')) ?cv) (heap s')"
  have dc: "distinct (parameters (critic s'))" and da: "distinct (parameters (actor s'))"
    and disj: "set (parameters (actor s')) \<inter> set (parameters (critic s')) = {}"
    and rc: "\<forall>a \<in> set (parameters (critic s')). a < length (heap s')"
    and ra: "\<forall>a \<in> set (parameters (actor s')). a < length (heap s')"
    using sep by (auto simp: separate_def list_all_iff)
  have c1: "load_state_dict (heap s') (critic s') (ModuleDict ?cv) = (None, ?h1)"
    using shp by (intro load_state_dict_ok(1) dc rc) (simp add: same_shapes_def)
  have "values_of ?h1 (actor s') = values_of (heap s') (actor s')"
    using disj by (rule values_of_fold_copy_other)
  then have a1: "load_state_dict ?h1 (actor s') (ModuleDict ?av)
      = (None, fold copy_entry (zip (parameters (actor s')) ?av) ?h1)"
    using shp ra by (intro load_state_dict_ok(1) da) (simp_all add: same_shapes_def)
  show ?thesis
    using shp c1 a1
    by (simp add: load_def load_critic_def load_critic_optimizer_def load_actor_def
        load_actor_optimizer_def torch_load_def save_lookup state_dict_def opt_state_dict_def
        same_shapes_def)
qed

subsection \<open>Persistence\<close>

text \<open>
  Claim C7: \<open>save\<close> writes the four artifacts \<open>_critic\<close>, \<open>_critic_hyp_params\<close>, \<open>_actor\<close>,
  \<open>_actor_hyp_params\<close> (parameters of critic and actor, states of their optimizers) under four
  different names and nothing else, and \<open>load\<close> of what was saved, into a fresh agent \<open>s'\<close>
  with networks of the same shapes, succeeds and gives that agent the saved parameters of
  actor and critic and the saved optimizer states.
\<close>

theorem save_load_roundtrip:
  assumes "separate s'" and "same_shapes s s'"
  shows "\<exists>s''. load s' filename (save s filename fs) = (None, s'')
     \<and> values_of (heap s'') (critic s'') = values_of (heap s) (critic s)
     \<and> values_of (heap s'') (actor s'') = values_of (heap s) (actor s)
     \<and> opt_state (critic_optimizer s'') = opt_state (critic_optimizer s)
     \<and> lr (critic_optimizer s'') = lr (critic_optimizer s)
     \<and> opt_state (actor_optimizer s'') = opt_state (actor_optimizer s)
     \<and> lr (actor_optimizer s'') = lr (actor_optimizer s)
     \<and> save s filename fs =
         fs(filename @ ''_critic'' \<mapsto> state_dict (heap s) (critic s),
            filename @ ''_critic_hyp_params'' \<mapsto> opt_state_dict (critic_optimizer s),
            filename @ ''_actor'' \<mapsto> state_dict (heap s) (actor s),
            filename @ ''_actor_hyp_params'' \<mapsto> opt_state_dict (actor_optimizer s))
     \<and> distinct [filename @ ''_critic'', filename @ ''_critic_hyp_params'',
           filename @ ''_actor'', filename @ ''_actor_hyp_params'']"
proof -
  let ?cv = "values_of (heap s) (critic s)" and ?av = "values_of (heap s) (actor s)"
  let ?h1 = "fold copy_entry (zip (parameters (critic s')) ?cv) (heap s')"
  let ?h2 = "fold copy_entry (zip (parameters (actor s')) ?av) ?h1"
  have dc: "distinct (parameters (critic s'))" and da: "distinct (parameters (actor s'))"
    and disj: "set (parameters (critic s')) \<inter> set (parameters (actor s')) = {}"
    and rc: "\<forall>a \<in> set (parameters (critic s')). a < length (heap s')"
    and ra: "\<forall>a \<in> set (parameters (actor s')). a < length (heap s')"
    using assms(1) by (auto simp: separate_def list_all_iff)
  have sc: "map length ?cv = map length (values_of (heap s') (critic s'))"
    and sa: "map length ?av = map length (values_of (heap s') (actor s'))"
    using assms(2) by (simp_all add: same_shapes_def)
  have c: "values_of ?h1 (critic s') = ?cv"
    by (rule load_state_dict_ok(2) [OF dc rc sc])
  have "values_of ?h1 (actor s') = values_of (heap s') (actor s')"
    using disj by (intro values_of_fold_copy_other) auto
  then have a: "values_of ?h2 (actor s') = ?av"
    using ra sa by (intro load_state_dict_ok(2) da) simp_all
  have c': "values_of ?h2 (critic s') = ?cv"
    using c values_of_fold_copy_other [OF disj] by simp
  show ?thesis
    using load_saved [OF assms, of filename fs] a c'
    by (simp add: save_def torch_save_def)
qed

lemma ex_separate: "separate ex_agent"
  by (simp add: separate_def ex_agent_def ex_actor_def ex_critic_def)

lemma ex_same_shapes: "same_shapes ex_trained ex_agent"
  by (simp add: same_shapes_def ex_trained_def ex_agent_def ex_actor_def ex_critic_def values_of_def)

theorem save_load_roundtrip_witness:
  "separate ex_agent \<and> same_shapes ex_trained ex_agent
   \<and> fst (load ex_agent ''ckpt'' (save ex_trained ''ckpt'' Map.empty)) = None
   \<and> values_of (heap (snd (load ex_agent ''ckpt'' (save ex_trained ''ckpt'' Map.empty))))
        (critic ex_agent) = [[3, 2]]"
proof -
  obtain s'' where "load ex_agent ''ckpt'' (save ex_trained ''ckpt'' Map.empty) = (None, s'')"
    and "values_of (heap s'') (critic s'') = values_of (heap ex_trained) (critic ex_trained)"
    using save_load_roundtrip [OF ex_separate ex_same_shapes, of "''ckpt''" Map.empty] by blast
  moreover have "critic s'' = critic ex_agent"
    using calculation(1) load_saved [OF ex_separate ex_same_shapes, of "''ckpt''" Map.empty] by auto
  moreover have "values_of (heap ex_trained) (critic ex_trained) = [[3, 2]]"
    by (simp add: ex_trained_def ex_agent_def ex_critic_def values_of_def)
  ultimately show ?thesis using ex_separate ex_same_shapes by simp
qed

text \<open>
  Claim C4 says that a load with a missing artifact changes nothing. With the critic's two
  artifacts present and the actor's missing, \<open>load\<close> raises FileNotFoundError after the
  critic and its optimizer have been restored: the agent is left half-restored.
\<close>

theorem load_partial_restore:
  "fst (load ex_agent ''ckpt'' ex_partial) = Some FileNotFoundError
   \<and> values_of (heap ex_agent) (critic ex_agent) = [[1, 1]]
   \<and> values_of (heap (snd (load ex_agent ''ckpt'' ex_partial))) (critic ex_agent) = [[3, 2]]
   \<and> lr (critic_optimizer ex_agent) = 1 / 10
   \<and> lr (critic_optimizer (snd (load ex_agent ''ckpt'' ex_partial))) = 1 / 5"
  by (simp add: load_def load_critic_def load_critic_optimizer_def load_actor_def torch_load_def
      ex_partial_def ex_agent_def ex_critic_def ex_actor_def values_of_def copy_entry_def)

text \<open>
  Claim C4, amended: \<open>load\<close> fails whenever one of the four artifacts is missing. It restores
  the artifacts one after the other, in the order \<open>_critic\<close>, \<open>_critic_hyp_params\<close>,
  \<open>_actor\<close>, \<open>_actor_hyp_params\<close>, and raises FileNotFoundError at the first missing one, once
  the ones before it have been loaded. The failure is not atomic: the agent is left as the
  loads before the missing artifact made it, and is unchanged only when \<open>_critic\<close> is the one
  that is missing.
\<close>

theorem load_fails_stepwise:
  "(fs (filename @ ''_critic'') = None \<or> fs (filename @ ''_critic_hyp_params'') = None
      \<or> fs (filename @ ''_actor'') = None \<or> fs (filename @ ''_actor_hyp_params'') = None
     \<longrightarrow> fst (load s filename fs) \<noteq> None)
   \<and> (fs (filename @ ''_critic'') = None \<longrightarrow> load s filename fs = (Some FileNotFoundError, s))
   \<and> (load_critic s filename fs = (None, s1) \<and> fs (filename @ ''_critic_hyp_params'') = None
        \<longrightarrow> load s filename fs = (Some FileNotFoundError, s1))
   \<and> (load_critic s filename fs = (None, s1) \<and> load_critic_optimizer s1 filename fs = (None, s2)
        \<and> fs (filename @ ''_actor'') = None
        \<longrightarrow> load s filename fs = (Some FileNotFoundError, s2))
   \<and> (load_critic s filename fs = (None, s1) \<and> load_critic_optimizer s1 filename fs = (None, s2)
        \<and> load_actor s2 filename fs = (None, s3) \<and> fs (filename @ ''_actor_hyp_params'') = None
        \<longrightarrow> load s filename fs = (Some FileNotFoundError, s3))"
proof -
  have 1: "fst (load_critic s filename fs) \<noteq> None" if "fs (filename @ ''_critic'') = None" for s
    using that by (simp add: load_critic_def torch_load_def)
  have 2: "fst (load_critic_optimizer s filename fs) \<noteq> None"
    if "fs (filename @ ''_critic_hyp_params'') = None" for s
    using that by (simp add: load_critic_optimizer_def torch_load_def)
  have 3: "fst (load_actor s filename fs) \<noteq> None" if "fs (filename @ ''_actor'') = None" for s
    using that by (simp add: load_actor_def torch_load_def)
  have 4: "fst (load_actor_optimizer s filename fs) \<noteq> None"
    if "fs (filename @ ''_actor_hyp_params'') = None" for s
    using that by (simp add: load_actor_optimizer_def torch_load_def)
  have a: "fs (filename @ ''_critic'') = None \<or> fs (filename @ ''_critic_hyp_params'') = None
      \<or> fs (filename @ ''_actor'') = None \<or> fs (filename @ ''_actor_hyp_params'') = None
     \<longrightarrow> fst (load s filename fs) \<noteq> None"
  proof (rule impI, rule notI)
    assume miss: "fs (filename @ ''_critic'') = None \<or> fs (filename @ ''_critic_hyp_params'') = None
      \<or> fs (filename @ ''_actor'') = None \<or> fs (filename @ ''_actor_hyp_params'') = None"
    assume ok: "fst (load s filename fs) = None"
    obtain e1 t1 where l1: "load_critic s filename fs = (e1, t1)" by (cases "load_critic s filename fs")
    have e1: "e1 = None" using ok l1 by (cases e1) (simp_all add: load_def)
    obtain e2 t2 where l2: "load_critic_optimizer t1 filename fs = (e2, t2)"
      by (cases "load_critic_optimizer t1 filename fs")
    have e2: "e2 = None" using ok l1 e1 l2 by (cases e2) (simp_all add: load_def)
    obtain e3 t3 where l3: "load_actor t2 filename fs = (e3, t3)"
      by (cases "load_actor t2 filename fs")
    have e3: "e3 = None" using ok l1 e1 l2 e2 l3 by (cases e3) (simp_all add: load_def)
    have e4: "fst (load_actor_optimizer t3 filename fs) = None"
      using ok l1 e1 l2 e2 l3 e3 by (simp add: load_def)
    show False
      using miss 1 [of s] 2 [of t1] 3 [of t2] 4 [of t3] l1 e1 l2 e2 l3 e3 e4 by auto
  qed
  have b: "fs (filename @ ''_critic'') = None \<longrightarrow> load s filename fs = (Some FileNotFoundError, s)"
    by (simp add: load_def load_critic_def torch_load_def)
  have c: "load_critic s filename fs = (None, s1) \<and> fs (filename @ ''_critic_hyp_params'') = None
        \<longrightarrow> load s filename fs = (Some FileNotFoundError, s1)"
    by (simp add: load_def load_critic_optimizer_def torch_load_def)
  have d: "load_critic s filename fs = (None, s1) \<and> load_critic_optimizer s1 filename fs = (None, s2)
        \<and> fs (filename @ ''_actor'') = None
        \<longrightarrow> load s filename fs = (Some FileNotFoundError, s2)"
    by (simp add: load_def load_actor_def torch_load_def)
  have e: "load_critic s filename fs = (None, s1) \<and> load_critic_optimizer s1 filename fs = (None, s2)
        \<and> load_actor s2 filename fs = (None, s3) \<and> fs (filename @ ''_actor_hyp_params'') = None
        \<longrightarrow> load s filename fs = (Some FileNotFoundError, s3)"
    by (simp add: load_def load_actor_optimizer_def torch_load_def)
  show ?thesis using a b c d e by blast
qed

theorem load_fails_stepwise_witness:
  "ex_partial (''ckpt'' @ ''_actor'') = None
   \<and> fst (load_critic ex_agent ''ckpt'' ex_partial) = None
   \<and> fst (load_critic_optimizer (snd (load_critic ex_agent ''ckpt'' ex_partial)) ''ckpt''
          ex_partial) = None
   \<and> load ex_agent ''ckpt'' ex_partial =
       (Some FileNotFoundError,
        snd (load_critic_optimizer (snd (load_critic ex_agent ''ckpt'' ex_partial)) ''ckpt''
          ex_partial))"
proof -
  let ?s1 = "snd (load_critic ex_agent ''ckpt'' ex_partial)"
  let ?s2 = "snd (load_critic_optimizer ?s1 ''ckpt'' ex_partial)"
  have f1: "fst (load_critic ex_agent ''ckpt'' ex_partial) = None"
    by (simp add: load_critic_def torch_load_def ex_partial_def ex_agent_def ex_critic_def
        split: prod.splits)
  have f2: "fst (load_critic_optimizer ?s1 ''ckpt'' ex_partial) = None"
    by (simp add: load_critic_def load_critic_optimizer_def torch_load_def ex_partial_def
        ex_agent_def ex_critic_def split: prod.splits)
  have h1: "load_critic ex_agent ''ckpt'' ex_partial = (None, ?s1)"
    using f1 by (simp add: prod_eq_iff)
  have h2: "load_critic_optimizer ?s1 ''ckpt'' ex_partial = (None, ?s2)"
    using f2 by (simp add: prod_eq_iff)
  have h3: "ex_partial (''ckpt'' @ ''_actor'') = None"
    by (simp add: ex_partial_def)
  have "load ex_agent ''ckpt'' ex_partial = (Some FileNotFoundError, ?s2)"
    using load_fails_stepwise [of ex_partial "''ckpt''" ex_agent ?s1 ?s2] h1 h2 h3 by blast
  then show ?thesis using f1 f2 h3 by blast
qed

subsection \<open>Gradients and optimizer steps in the store\<close>

lemma length_upd_at [simp]: "length (upd_at A f h) = length h"
  by (simp add: upd_at_def)

lemma nth_upd_at:
  "a < length h \<Longrightarrow> upd_at A f h ! a = (if a \<in> A then f a (h ! a) else h ! a)"
  by (simp add: upd_at_def)

lemma length_write_data [simp]: "length (write_data h avs) = length h"
  unfolding write_data_def by (induction avs arbitrary: h) auto

lemma write_data_other: "a \<notin> fst ` set avs \<Longrightarrow> write_data h avs ! a = h ! a"
  unfolding write_data_def by (induction avs arbitrary: h) auto

lemma write_data_grad: "grad (write_data h avs ! a) = grad (h ! a)"
  unfolding write_data_def
proof (induction avs arbitrary: h)
  case Nil
  then show ?case by simp
next
  case (Cons av avs)
  obtain b v where av: "av = (b, v)" by (cases av)
  have "grad (h[b := (h ! b)\<lparr>data := v\<rparr>] ! a) = grad (h ! a)"
    by (cases "a = b"; cases "b < length h") (auto simp: list_update_beyond)
  with Cons show ?case by (simp add: av)
qed


lemma length_zero_grad [simp]: "length (zero_grad opt h) = length h"
  by (simp add: zero_grad_def)

lemma zero_grad_data: "a < length h \<Longrightarrow> data (zero_grad opt h ! a) = data (h ! a)"
  by (simp add: zero_grad_def nth_upd_at)


lemma backward_length: "backward l loss h = Inr h' \<Longrightarrow> length h' = length h"
  by (auto simp: backward_def split: if_splits)

lemma backward_data:
  "backward l loss h = Inr h' \<Longrightarrow> a < length h \<Longrightarrow> data (h' ! a) = data (h ! a)"
  by (auto simp: backward_def nth_upd_at split: if_splits)




lemma step_frame:
  assumes "step l opt h = (opt', h')"
  shows "length h' = length h" and "opt_params opt' = opt_params opt"
    and "a \<notin> set (opt_params opt) \<Longrightarrow> h' ! a = h ! a"
    and "grad (h' ! a) = grad (h ! a)"
proof -
  obtain st vs where ad: "adam l (lr opt) (opt_state opt) (map (\<lambda>a. grad (h ! a)) (opt_params opt))
      (map (\<lambda>a. data (h ! a)) (opt_params opt)) = (st, vs)" by (cases "adam l (lr opt) (opt_state opt) (map (\<lambda>a. grad (h ! a)) (opt_params opt))
      (map (\<lambda>a. data (h ! a)) (opt_params opt))")
  have eq: "opt' = opt\<lparr>opt_state := st\<rparr>" "h' = write_data h (zip (opt_params opt) vs)"
    using assms ad by (simp_all add: step_def)
  show "length h' = length h" by (simp add: eq)
  show "opt_params opt' = opt_params opt" by (simp add: eq)
  show "grad (h' ! a) = grad (h ! a)" by (simp add: eq write_data_grad)
  show "h' ! a = h ! a" if "a \<notin> set (opt_params opt)"
    unfolding eq using that by (intro write_data_other) (auto dest: set_zip_leftD)
qed

lemma optimize_frame:
  assumes "optimize l opt loss h = (e, opt', h')"
  shows "length h' = length h \<and> opt_params opt' = opt_params opt
    \<and> (a < length h \<longrightarrow> a \<notin> set (opt_params opt) \<longrightarrow> data (h' ! a) = data (h ! a))"
proof -
  let ?h1 = "zero_grad opt h"
  have len1: "length ?h1 = length h" by (simp add: zero_grad_def)
  show ?thesis
  proof (cases "backward l loss ?h1")
    case (Inl e')
    then show ?thesis using assms by (auto simp: optimize_def zero_grad_data len1)
  next
    case (Inr h2)
    obtain o3 h3 where st: "step l opt h2 = (o3, h3)" by (cases "step l opt h2")
    have eq: "h' = h3" "opt' = o3" using assms Inr st by (simp_all add: optimize_def)
    have len2: "length h2 = length h" using backward_length [OF Inr] len1 by simp
    have "data (h3 ! a) = data (h ! a)" if a: "a < length h" "a \<notin> set (opt_params opt)"
    proof -
      have "h3 ! a = h2 ! a" using step_frame(3) [OF st] a by simp
      moreover have "data (h2 ! a) = data (?h1 ! a)" using backward_data [OF Inr] a len1 by simp
      ultimately show ?thesis using a by (simp add: zero_grad_data)
    qed
    then show ?thesis using step_frame(1,2) [OF st] len2 by (simp add: eq)
  qed
qed


lemma g_lift_deps: "g_lift ope h a b = Inr n \<Longrightarrow> deps n = deps a \<union> deps b"
  by (auto simp: g_lift_def split: option.splits)

lemma td_target_deps:
  "td_target s rewards dones next_states = Inr y \<Longrightarrow>
   deps y = set (parameters (actor_target s)) \<union> set (parameters (critic_target s))"
  by (auto simp: td_target_def Let_def g_bop_def g_hstack_def call_def const_node_def
      split: sum.splits dest!: g_lift_deps)



subsection \<open>The order of the two optimizer steps\<close>

lemma values_of_frame:
  assumes "\<forall>a \<in> set (parameters m). data (h' ! a) = data (h ! a)"
  shows "values_of h' m = values_of h m"
  using assms by (simp add: values_of_def)











subsection \<open>The targets\<close>

lemma init_shape:
  assumes "DDPG_init h Actor Critic actor_lr critic_lr disc_rate bsize = Inr s0"
  shows "heap s0 = h @ map (\<lambda>a. \<lparr>data = data (h ! a), grad = None\<rparr>) (parameters Actor)
                     @ map (\<lambda>a. \<lparr>data = data ((h @ map (\<lambda>a. \<lparr>data = data (h ! a), grad = None\<rparr>) (parameters Actor)) ! a), grad = None\<rparr>) (parameters Critic)"
    and "actor s0 = Actor" and "critic s0 = Critic"
    and "opt_params (actor_optimizer s0) = parameters Actor"
    and "opt_params (critic_optimizer s0) = parameters Critic"
    and "parameters (actor_target s0) = [length h ..< length h + length (parameters Actor)]"
    and "parameters (critic_target s0) =
           [length h + length (parameters Actor) ..<
            length h + length (parameters Actor) + length (parameters Critic)]"
    and "forward (actor_target s0) = forward Actor"
    and "forward (critic_target s0) = forward Critic"
    and "parameters Actor \<noteq> []" and "parameters Critic \<noteq> []"
  using assms
  by (auto simp: DDPG_init_def Adam_def deepcopy_def Let_def split: sum.splits if_splits)

lemma nth_window:
  "map (\<lambda>a. (xs @ ys @ zs) ! a) [length xs ..< length xs + length ys] = ys"
  by (auto intro!: nth_equalityI simp: nth_append)

lemma nth_window2:
  "map (\<lambda>a. (xs @ ys) ! a) [length xs ..< length xs + length ys] = ys"
  using nth_window [of xs ys "[]"] by simp

lemma init_values:
  assumes init: "DDPG_init h Actor Critic actor_lr critic_lr disc_rate bsize = Inr s0"
    and live: "list_all (\<lambda>a. a < length h) (parameters Actor @ parameters Critic)"
  shows "values_of (heap s0) (actor s0) = values_of h Actor"
    and "values_of (heap s0) (critic s0) = values_of h Critic"
    and "values_of (heap s0) (actor_target s0) = values_of h Actor"
    and "values_of (heap s0) (critic_target s0) = values_of h Critic"
proof -
  let ?A = "map (\<lambda>a. \<lparr>data = data (h ! a), grad = None\<rparr>) (parameters Actor)"
  let ?C = "map (\<lambda>a. \<lparr>data = data (h ! a), grad = None\<rparr>) (parameters Critic)"
  have la: "\<forall>a \<in> set (parameters Actor). a < length h"
    and lc: "\<forall>a \<in> set (parameters Critic). a < length h"
    using live by (auto simp: list_all_iff)
  have "map (\<lambda>a. \<lparr>data = data ((h @ ?A) ! a), grad = None\<rparr>) (parameters Critic) = ?C"
    using lc by (simp add: nth_append)
  then have hp: "heap s0 = h @ ?A @ ?C" using init_shape(1) [OF init] by simp
  show "values_of (heap s0) (actor s0) = values_of h Actor"
    using la by (simp add: values_of_def hp init_shape(2) [OF init] nth_append)
  show "values_of (heap s0) (critic s0) = values_of h Critic"
    using lc by (simp add: values_of_def hp init_shape(3) [OF init] nth_append)
  have "map (\<lambda>a. (h @ ?A @ ?C) ! a) [length h ..< length h + length ?A] = ?A"
    by (rule nth_window)
  then have "map data (map (\<lambda>a. (h @ ?A @ ?C) ! a) [length h ..< length h + length ?A])
      = map data ?A" by simp
  then show "values_of (heap s0) (actor_target s0) = values_of h Actor"
    by (simp add: values_of_def hp init_shape(6) [OF init] comp_def)
  have "map (\<lambda>a. ((h @ ?A) @ ?C) ! a) [length (h @ ?A) ..< length (h @ ?A) + length ?C] = ?C"
    by (rule nth_window2)
  then have "map data (map (\<lambda>a. ((h @ ?A) @ ?C) ! a)
        [length (h @ ?A) ..< length (h @ ?A) + length ?C]) = map data ?C" by simp
  then show "values_of (heap s0) (critic_target s0) = values_of h Critic"
    by (simp add: values_of_def hp init_shape(7) [OF init] comp_def)
qed

lemma init_wired:
  assumes "DDPG_init h Actor Critic actor_lr critic_lr disc_rate bsize = Inr s0"
  shows "wired s0"
  by (simp add: wired_def init_shape [OF assms])

lemma init_separate:
  assumes "DDPG_init h Actor Critic actor_lr critic_lr disc_rate bsize = Inr s0"
    and "distinct (parameters Critic @ parameters Actor)"
    and "list_all (\<lambda>a. a < length h) (parameters Critic @ parameters Actor)"
  shows "separate s0"
proof -
  have "a < length (heap s0)" if "a < length h" for a
    using that by (simp add: init_shape(1) [OF assms(1)])
  then show ?thesis
    using assms(2,3)
    by (simp add: separate_def init_shape(2,3) [OF assms(1)] list_all_iff)
qed

lemma init_apart:
  assumes init: "DDPG_init h Actor Critic actor_lr critic_lr disc_rate bsize = Inr s0"
    and live: "list_all (\<lambda>a. a < length h) (parameters Actor @ parameters Critic)"
  shows "targets_apart (length h) s0"
  using live
  by (auto simp: targets_apart_def list_all_iff init_shape [OF init])

lemma frame_refl: "frame W s s"
  by (simp add: frame_def)

lemma frame_trans: "frame W s s' \<Longrightarrow> frame W s' s'' \<Longrightarrow> frame W s s''"
  by (auto simp: frame_def)

lemma frame_mono: "frame W s s' \<Longrightarrow> W \<subseteq> W' \<Longrightarrow> frame W' s s'"
  by (auto simp: frame_def)

lemma optimize_critic_frame:
  assumes "optimize_critic l s loss = (e, s')"
  shows "frame (set (opt_params (critic_optimizer s))) s s'"
proof -
  obtain e0 opt h where o: "optimize l (critic_optimizer s) loss (heap s) = (e0, opt, h)"
    by (cases "optimize l (critic_optimizer s) loss (heap s)")
  have s': "s' = s\<lparr>heap := h, critic_optimizer := opt\<rparr>"
    using assms o by (simp add: optimize_critic_def)
  show ?thesis
    unfolding frame_def s' using optimize_frame [OF o] by simp
qed

lemma optimize_actor_frame:
  assumes "optimize_actor l s loss = (e, s')"
  shows "frame (set (opt_params (actor_optimizer s))) s s'"
proof -
  obtain e0 opt h where o: "optimize l (actor_optimizer s) loss (heap s) = (e0, opt, h)"
    by (cases "optimize l (actor_optimizer s) loss (heap s)")
  have s': "s' = s\<lparr>heap := h, actor_optimizer := opt\<rparr>"
    using assms o by (simp add: optimize_actor_def)
  show ?thesis
    unfolding frame_def s' using optimize_frame [OF o] by simp
qed

lemma update_frame:
  "frame (set (opt_params (critic_optimizer s)) \<union> set (opt_params (actor_optimizer s))) s
     (snd (update l s rng))"
proof -
  let ?W = "set (opt_params (critic_optimizer s)) \<union> set (opt_params (actor_optimizer s))"
  show ?thesis
  proof (cases "ExpReplay_len (buffer s) < batch_size s")
    case True
    then have "snd (update l s rng) = s" by (simp add: update_def)
    then show ?thesis by (simp only: frame_refl)
  next
    case guard: False
    show ?thesis
    proof (cases "batch_of (ExpReplay_sample (buffer s) (batch_size s) rng)")
      case (Inl e)
      then have "snd (update l s rng) = s" using guard by (simp add: update_def)
      then show ?thesis by (simp only: frame_refl)
    next
      case batch: (Inr batch)
      show ?thesis
      proof (cases "critic_loss s batch")
        case (Inl e)
        then have "snd (update l s rng) = s" using guard batch by (simp add: update_def)
        then show ?thesis by (simp only: frame_refl)
      next
        case closs: (Inr closs)
        obtain e1 s1 where o1: "optimize_critic l s closs = (e1, s1)"
          by (cases "optimize_critic l s closs")
        have "frame (set (opt_params (critic_optimizer s))) s s1"
          using o1 by (rule optimize_critic_frame)
        then have f1: "frame ?W s s1"
          by (rule frame_mono) (rule Un_upper1)
        show ?thesis
        proof (cases e1)
          case (Some e)
          then have "snd (update l s rng) = s1"
            using guard batch closs o1 by (simp add: update_def)
          then show ?thesis using f1 by (simp only:)
        next
          case None
          show ?thesis
          proof (cases "actor_loss s1 (fst batch)")
            case (Inl e)
            then have "snd (update l s rng) = s1"
              using guard batch closs o1 None by (simp add: update_def)
            then show ?thesis using f1 by (simp only:)
          next
            case (Inr aloss)
            obtain e2 s2 where o2: "optimize_actor l s1 aloss = (e2, s2)"
              by (cases "optimize_actor l s1 aloss")
            have eq: "opt_params (actor_optimizer s1) = opt_params (actor_optimizer s)"
              using f1 by (simp add: frame_def)
            have "frame (set (opt_params (actor_optimizer s1))) s1 s2"
              using o2 by (rule optimize_actor_frame)
            then have "frame ?W s1 s2"
              unfolding eq by (rule frame_mono) (rule Un_upper2)
            with f1 have f2: "frame ?W s s2" by (rule frame_trans)
            have "snd (update l s rng) = s2"
              using guard batch closs o1 None Inr o2 by (simp add: update_def)
            then show ?thesis using f2 by (simp only:)
          qed
        qed
      qed
    qed
  qed
qed

lemma load_state_dict_frame:
  assumes "load_state_dict h m b = (e, h')"
  shows "length h' = length h" and "a \<notin> set (parameters m) \<Longrightarrow> h' ! a = h ! a"
proof -
  show "length h' = length h" using assms by (cases b) auto
  show "h' ! a = h ! a" if "a \<notin> set (parameters m)"
  proof (cases b)
    case (ModuleDict vs)
    have "a \<notin> fst ` set (zip (parameters m) vs)" using that by (auto dest: set_zip_leftD)
    then show ?thesis using assms ModuleDict by (auto simp: fold_copy_other)
  next
    case (OptimDict d)
    then show ?thesis using assms by simp
  qed
qed

lemma opt_load_state_dict_params:
  "opt_load_state_dict opt b = (e, opt') \<Longrightarrow> opt_params opt' = opt_params opt"
  by (cases b) (auto split: if_splits)

lemma load_critic_frame: "frame (set (parameters (critic s))) s (snd (load_critic s filename fs))"
proof (cases "torch_load fs (filename @ ''_critic'')")
  case (Inl e)
  then have "snd (load_critic s filename fs) = s" by (simp add: load_critic_def)
  then show ?thesis by (simp only: frame_refl)
next
  case (Inr b)
  obtain e h where l: "load_state_dict (heap s) (critic s) b = (e, h)"
    by (cases "load_state_dict (heap s) (critic s) b")
  have "snd (load_critic s filename fs) = s\<lparr>heap := h\<rparr>"
    using Inr l by (simp add: load_critic_def)
  then show ?thesis
    using load_state_dict_frame [OF l] by (simp add: frame_def)
qed

lemma load_actor_frame: "frame (set (parameters (actor s))) s (snd (load_actor s filename fs))"
proof (cases "torch_load fs (filename @ ''_actor'')")
  case (Inl e)
  then have "snd (load_actor s filename fs) = s" by (simp add: load_actor_def)
  then show ?thesis by (simp only: frame_refl)
next
  case (Inr b)
  obtain e h where l: "load_state_dict (heap s) (actor s) b = (e, h)"
    by (cases "load_state_dict (heap s) (actor s) b")
  have "snd (load_actor s filename fs) = s\<lparr>heap := h\<rparr>"
    using Inr l by (simp add: load_actor_def)
  then show ?thesis
    using load_state_dict_frame [OF l] by (simp add: frame_def)
qed

lemma load_critic_optimizer_frame: "frame {} s (snd (load_critic_optimizer s filename fs))"
proof (cases "torch_load fs (filename @ ''_critic_hyp_params'')")
  case (Inl e)
  then have "snd (load_critic_optimizer s filename fs) = s" by (simp add: load_critic_optimizer_def)
  then show ?thesis by (simp only: frame_refl)
next
  case (Inr b)
  obtain e opt where l: "opt_load_state_dict (critic_optimizer s) b = (e, opt)"
    by (cases "opt_load_state_dict (critic_optimizer s) b")
  have "snd (load_critic_optimizer s filename fs) = s\<lparr>critic_optimizer := opt\<rparr>"
    using Inr l by (simp add: load_critic_optimizer_def)
  then show ?thesis
    using opt_load_state_dict_params [OF l] by (simp add: frame_def)
qed

lemma load_actor_optimizer_frame: "frame {} s (snd (load_actor_optimizer s filename fs))"
proof (cases "torch_load fs (filename @ ''_actor_hyp_params'')")
  case (Inl e)
  then have "snd (load_actor_optimizer s filename fs) = s" by (simp add: load_actor_optimizer_def)
  then show ?thesis by (simp only: frame_refl)
next
  case (Inr b)
  obtain e opt where l: "opt_load_state_dict (actor_optimizer s) b = (e, opt)"
    by (cases "opt_load_state_dict (actor_optimizer s) b")
  have "snd (load_actor_optimizer s filename fs) = s\<lparr>actor_optimizer := opt\<rparr>"
    using Inr l by (simp add: load_actor_optimizer_def)
  then show ?thesis
    using opt_load_state_dict_params [OF l] by (simp add: frame_def)
qed

lemma load_frame:
  "frame (set (parameters (critic s)) \<union> set (parameters (actor s))) s (snd (load s filename fs))"
proof -
  let ?W = "set (parameters (critic s)) \<union> set (parameters (actor s))"
  obtain e1 s1 where l1: "load_critic s filename fs = (e1, s1)"
    by (cases "load_critic s filename fs")
  obtain e2 s2 where l2: "load_critic_optimizer s1 filename fs = (e2, s2)"
    by (cases "load_critic_optimizer s1 filename fs")
  obtain e3 s3 where l3: "load_actor s2 filename fs = (e3, s3)"
    by (cases "load_actor s2 filename fs")
  obtain e4 s4 where l4: "load_actor_optimizer s3 filename fs = (e4, s4)"
    by (cases "load_actor_optimizer s3 filename fs")
  have "frame (set (parameters (critic s))) s s1"
    using load_critic_frame [of s filename fs] l1 by simp
  then have f1: "frame ?W s s1" by (rule frame_mono) (rule Un_upper1)
  have "frame {} s1 s2" using load_critic_optimizer_frame [of s1 filename fs] l2 by simp
  then have "frame ?W s1 s2" by (rule frame_mono) simp
  with f1 have f2: "frame ?W s s2" by (rule frame_trans)
  have "actor s2 = actor s" using f2 by (simp add: frame_def)
  moreover have "frame (set (parameters (actor s2))) s2 s3"
    using load_actor_frame [of s2 filename fs] l3 by simp
  ultimately have "frame (set (parameters (actor s))) s2 s3" by simp
  then have "frame ?W s2 s3" by (rule frame_mono) (rule Un_upper2)
  with f2 have f3: "frame ?W s s3" by (rule frame_trans)
  have "frame {} s3 s4" using load_actor_optimizer_frame [of s3 filename fs] l4 by simp
  then have "frame ?W s3 s4" by (rule frame_mono) simp
  with f3 have f4: "frame ?W s s4" by (rule frame_trans)
  show ?thesis
  proof (cases e1)
    case (Some e)
    then have "snd (load s filename fs) = s1" using l1 by (simp add: load_def)
    then show ?thesis using f1 by (simp only:)
  next
    case n1: None
    show ?thesis
    proof (cases e2)
      case (Some e)
      then have "snd (load s filename fs) = s2" using l1 n1 l2 by (simp add: load_def)
      then show ?thesis using f2 by (simp only:)
    next
      case n2: None
      show ?thesis
      proof (cases e3)
        case (Some e)
        then have "snd (load s filename fs) = s3" using l1 n1 l2 n2 l3 by (simp add: load_def)
        then show ?thesis using f3 by (simp only:)
      next
        case None
        then have "snd (load s filename fs) = s4" using l1 n1 l2 n2 l3 l4 by (simp add: load_def)
        then show ?thesis using f4 by (simp only:)
      qed
    qed
  qed
qed

lemma frame_trainable: "frame W s s' \<Longrightarrow> trainable s' = trainable s"
  by (simp add: frame_def trainable_def)

lemma exec_frame: "frame (trainable s) s (exec l c s)"
proof (cases c)
  case (Store t)
  then show ?thesis by (simp add: store_def frame_def)
next
  case Reset
  then show ?thesis by (simp add: reset_def frame_def)
next
  case (Update rng)
  have "frame (set (opt_params (critic_optimizer s)) \<union> set (opt_params (actor_optimizer s))) s
     (snd (update l s rng))" by (rule update_frame)
  then have "frame (trainable s) s (snd (update l s rng))"
    by (rule frame_mono) (auto simp: trainable_def)
  then show ?thesis using Update by simp
next
  case (Load filename fs)
  have "frame (set (parameters (critic s)) \<union> set (parameters (actor s))) s
      (snd (load s filename fs))" by (rule load_frame)
  then have "frame (trainable s) s (snd (load s filename fs))"
    by (rule frame_mono) (auto simp: trainable_def)
  then show ?thesis using Load by simp
qed

lemma run_frame: "frame (trainable s) s (run l cs s)"
proof (induction cs arbitrary: s)
  case Nil
  then show ?case by (simp add: run_def frame_refl)
next
  case (Cons c cs)
  have f: "frame (trainable s) s (exec l c s)" by (rule exec_frame)
  have "frame (trainable (exec l c s)) (exec l c s) (run l cs (exec l c s))" by (rule Cons.IH)
  then have "frame (trainable s) (exec l c s) (run l cs (exec l c s))"
    using frame_trainable [OF f] by simp
  with f have "frame (trainable s) s (run l cs (exec l c s))" by (rule frame_trans)
  then show ?case by (simp add: run_def)
qed

lemma frame_targets:
  assumes ap: "targets_apart n s" and f: "frame (trainable s) s s'"
  shows "values_of (heap s') (actor_target s') = values_of (heap s) (actor_target s)"
    and "values_of (heap s') (critic_target s') = values_of (heap s) (critic_target s)"
    and "targets_apart n s'"
proof -
  have on: "\<forall>a \<in> trainable s. a < n"
    using ap by (auto simp: targets_apart_def trainable_def list_all_iff)
  have keep: "data (heap s' ! a) = data (heap s ! a)" if "n \<le> a" "a < length (heap s)" for a
  proof -
    have "a \<notin> trainable s" using on that by auto
    then show ?thesis using f that by (simp add: frame_def)
  qed
  have ta: "\<forall>a \<in> set (parameters (actor_target s)). n \<le> a \<and> a < length (heap s)"
    and tc: "\<forall>a \<in> set (parameters (critic_target s)). n \<le> a \<and> a < length (heap s)"
    using ap by (auto simp: targets_apart_def list_all_iff)
  have eqs: "actor_target s' = actor_target s" "critic_target s' = critic_target s"
    "length (heap s') = length (heap s)" "actor s' = actor s" "critic s' = critic s"
    "opt_params (actor_optimizer s') = opt_params (actor_optimizer s)"
    "opt_params (critic_optimizer s') = opt_params (critic_optimizer s)"
    using f by (simp_all add: frame_def)
  show "values_of (heap s') (actor_target s') = values_of (heap s) (actor_target s)"
    using ta keep by (simp add: values_of_def eqs)
  show "values_of (heap s') (critic_target s') = values_of (heap s) (critic_target s)"
    using tc keep by (simp add: values_of_def eqs)
  show "targets_apart n s'"
    using ap by (simp add: targets_apart_def eqs)
qed

text \<open>
  Claim C6: at construction the target networks hold the values of their online counterparts
  in Parameter objects of their own, so that writing to a parameter of an online network
  leaves the targets as they are; and every sequence of calls of \<open>store\<close>, \<open>reset\<close>,
  \<open>update\<close> and \<open>load\<close> (all the methods that change the agent, \<open>polyak_update\<close> apart) leaves
  the values of the target parameters unchanged; in particular one more \<open>update\<close> does.
\<close>

theorem targets_frozen:
  assumes init: "DDPG_init h Actor Critic actor_lr critic_lr disc_rate bsize = Inr s0"
    and live: "list_all (\<lambda>a. a < length h) (parameters Actor @ parameters Critic)"
  shows "values_of (heap s0) (actor_target s0) = values_of (heap s0) (actor s0)
     \<and> values_of (heap s0) (critic_target s0) = values_of (heap s0) (critic s0)
     \<and> (\<forall>a \<in> set (parameters (actor s0) @ parameters (critic s0)).
           values_of ((heap s0)[a := p]) (actor_target s0) = values_of (heap s0) (actor_target s0)
         \<and> values_of ((heap s0)[a := p]) (critic_target s0)
             = values_of (heap s0) (critic_target s0))
     \<and> values_of (heap (run l cs s0)) (actor_target (run l cs s0))
         = values_of (heap s0) (actor_target s0)
     \<and> values_of (heap (run l cs s0)) (critic_target (run l cs s0))
         = values_of (heap s0) (critic_target s0)
     \<and> values_of (heap (snd (update l (run l cs s0) rng)))
           (actor_target (snd (update l (run l cs s0) rng)))
         = values_of (heap (run l cs s0)) (actor_target (run l cs s0))
     \<and> values_of (heap (snd (update l (run l cs s0) rng)))
           (critic_target (snd (update l (run l cs s0) rng)))
         = values_of (heap (run l cs s0)) (critic_target (run l cs s0))"
proof -
  let ?s = "run l cs s0"
  have ap0: "targets_apart (length h) s0" using init live by (rule init_apart)
  have copies: "values_of (heap s0) (actor_target s0) = values_of (heap s0) (actor s0)"
    "values_of (heap s0) (critic_target s0) = values_of (heap s0) (critic s0)"
    using init_values [OF init live] by simp_all
  have noalias: "values_of ((heap s0)[a := p]) (actor_target s0) = values_of (heap s0) (actor_target s0)
      \<and> values_of ((heap s0)[a := p]) (critic_target s0) = values_of (heap s0) (critic_target s0)"
    if "a \<in> set (parameters (actor s0) @ parameters (critic s0))" for a
  proof -
    have "a < length h" using that ap0 by (auto simp: targets_apart_def list_all_iff)
    moreover have "\<forall>b \<in> set (parameters (actor_target s0) @ parameters (critic_target s0)).
        length h \<le> b"
      using ap0 by (auto simp: targets_apart_def list_all_iff)
    ultimately have "\<forall>b \<in> set (parameters (actor_target s0) @ parameters (critic_target s0)).
        (heap s0)[a := p] ! b = heap s0 ! b"
      by (metis leD nth_list_update_neq)
    then show ?thesis by (simp add: values_of_def)
  qed
  have fr: "frame (trainable s0) s0 ?s" by (rule run_frame)
  note r = frame_targets [OF ap0 fr]
  have fu: "frame (trainable ?s) ?s (exec l (Update rng) ?s)" by (rule exec_frame)
  note u = frame_targets [OF r(3) fu]
  show ?thesis using copies noalias r(1,2) u(1,2) by simp
qed

lemma ex_live: "list_all (\<lambda>a. a < length ex_heap) (parameters ex_actor @ parameters ex_critic)"
  by (simp add: ex_heap_def ex_actor_def ex_critic_def)

theorem targets_frozen_witness:
  "DDPG_init ex_heap ex_actor ex_critic (1 / 10) (1 / 10) (1 / 2) 2 = Inr ex_agent
   \<and> list_all (\<lambda>a. a < length ex_heap) (parameters ex_actor @ parameters ex_critic)
   \<and> run ex_lib [Store ex_t1, Store ex_t2] ex_agent = ex_filled
   \<and> values_of (heap (snd (update ex_lib ex_filled (\<lambda>k. k))))
        (actor_target (snd (update ex_lib ex_filled (\<lambda>k. k)))) = [[1]]
   \<and> values_of (heap (snd (update ex_lib ex_filled (\<lambda>k. k))))
        (critic_target (snd (update ex_lib ex_filled (\<lambda>k. k)))) = [[1, 1]]"
proof -
  have r: "run ex_lib [Store ex_t1, Store ex_t2] ex_agent = ex_filled"
    by (simp add: run_def ex_filled_def)
  have v: "values_of (heap ex_filled) (actor_target ex_filled) = [[1]]"
    "values_of (heap ex_filled) (critic_target ex_filled) = [[1, 1]]"
    by (simp_all add: ex_defs)
  show ?thesis
    using targets_frozen [OF ex_init ex_live, of _ ex_lib "[Store ex_t1, Store ex_t2]" "\<lambda>k. k"]
      ex_init ex_live r v
    by simp
qed

end
